theory Spec2Isabelle
  imports Main
begin

section \<open>Data model\<close>

text \<open>
  The shared declarations of \<^verbatim>\<open>types.ts\<close>, as the modules use them. Numbers are the
  integers the simulation works on (\<^typ>\<open>int\<close>); an exception thrown by the JavaScript
  is the \<open>Inl\<close> side of a sum. The one amount that comes from outside, the reward of a
  goal, is added with the rounding of double precision (see \<open>jsAdd\<close>). A field keeps its name unless two records share it or
  the name is taken: the \<^verbatim>\<open>x\<close> and \<^verbatim>\<open>y\<close> of a tile are \<open>tile_x\<close> and \<open>tile_y\<close>, the
  \<^verbatim>\<open>buildingType\<close> of a goal is \<open>goal_buildingType\<close>, the \<^verbatim>\<open>type\<close> and
  \<^verbatim>\<open>description\<close> of a building configuration carry the prefix \<open>cfg_\<close>, and the fields of
  a news item the prefix \<open>news_\<close>.
\<close>

datatype error = TypeError | RangeError

text \<open>
  \<^verbatim>\<open>BuildingType\<close> is a string enum (its members are the keys of
  \<^verbatim>\<open>Record<string, number>\<close> tables and the cases of \<^verbatim>\<open>z.enum\<close>), so every
  member is a truthy value. \<open>NoneBT\<close> is \<^verbatim>\<open>BuildingType.None\<close>.
\<close>

datatype BuildingType = NoneBT | Road | Residential | Commercial | Industrial | Park

record TileData =
  tile_x :: int
  tile_y :: int
  buildingType :: BuildingType

type_synonym Grid = "TileData list list"

record BuildingConfig =
  cfg_type :: BuildingType
  cost :: int
  name :: string
  cfg_description :: string
  color :: string
  popGen :: int
  incomeGen :: int

record CityStats =
  money :: int
  population :: int
  day :: int

datatype TargetType = TT_money | TT_population | TT_building_count

record AIGoal =
  description :: string
  targetType :: TargetType
  targetValue :: int
  goal_buildingType :: "BuildingType option"
  reward :: int
  completed :: bool

datatype NewsType = positive | negative | neutral

record NewsItem =
  news_id :: string
  news_text :: string
  news_type :: NewsType

section \<open>Configuration (config/constants)\<close>

definition GRID_SIZE :: nat where
  "GRID_SIZE = 15"

definition INITIAL_MONEY :: int where
  "INITIAL_MONEY = 1000"

definition DEMOLISH_COST :: int where
  "DEMOLISH_COST = 5"

definition MAX_POP_PER_RESIDENTIAL :: int where
  "MAX_POP_PER_RESIDENTIAL = 50"

definition NO_HOUSING_DECAY :: int where
  "NO_HOUSING_DECAY = 5"

text \<open>
  \<^verbatim>\<open>BUILDINGS: Record<BuildingType, BuildingConfig>\<close> has an entry for every member
  of the enum, so a lookup never yields \<^verbatim>\<open>undefined\<close>.
\<close>

fun BUILDINGS :: "BuildingType \<Rightarrow> BuildingConfig" where
  "BUILDINGS NoneBT =
     \<lparr>cfg_type = NoneBT, cost = 0, name = ''Bulldoze'', cfg_description = ''Clear a tile'',
      color = ''#ef4444'', popGen = 0, incomeGen = 0\<rparr>"
| "BUILDINGS Road =
     \<lparr>cfg_type = Road, cost = 10, name = ''Road'', cfg_description = ''Connects buildings.'',
      color = ''#374151'', popGen = 0, incomeGen = 0\<rparr>"
| "BUILDINGS Residential =
     \<lparr>cfg_type = Residential, cost = 100, name = ''House'', cfg_description = ''+5 Pop/day'',
      color = ''#f87171'', popGen = 5, incomeGen = 0\<rparr>"
| "BUILDINGS Commercial =
     \<lparr>cfg_type = Commercial, cost = 200, name = ''Shop'', cfg_description = ''+$15/day'',
      color = ''#60a5fa'', popGen = 0, incomeGen = 15\<rparr>"
| "BUILDINGS Industrial =
     \<lparr>cfg_type = Industrial, cost = 400, name = ''Factory'', cfg_description = ''+$40/day'',
      color = ''#facc15'', popGen = 0, incomeGen = 40\<rparr>"
| "BUILDINGS Park =
     \<lparr>cfg_type = Park, cost = 50, name = ''Park'', cfg_description = ''Looks nice.'',
      color = ''#4ade80'', popGen = 1, incomeGen = 0\<rparr>"

section \<open>Economy simulation (features/city/logic/simulation and lib/simulation)\<close>

text \<open>
  \<^verbatim>\<open>grid[y][x]\<close> followed by the read of \<^verbatim>\<open>.buildingType\<close>: a row or a tile that is
  not there is \<^verbatim>\<open>undefined\<close>, and reading a property of it throws a TypeError.
\<close>

definition tileAt :: "Grid \<Rightarrow> nat \<Rightarrow> nat \<Rightarrow> error + TileData" where
  "tileAt g y x =
     (if y < length g then
        (if x < length (g ! y) then Inr (g ! y ! x) else Inl TypeError)
      else Inl TypeError)"

text \<open>
  The body of the double loop of \<^verbatim>\<open>calculateNextDay\<close> on one tile; the accumulator is
  \<open>(dailyIncome, dailyPopGrowth, residentialCount)\<close>. The test \<^verbatim>\<open>if (config)\<close> always
  succeeds, \<^verbatim>\<open>BUILDINGS\<close> being total.
\<close>

definition accumulate :: "TileData \<Rightarrow> int \<times> int \<times> int \<Rightarrow> int \<times> int \<times> int" where
  "accumulate tile = (\<lambda>(dailyIncome, dailyPopGrowth, resCount).
     let type = buildingType tile in
     if type \<noteq> NoneBT then
       (let config = BUILDINGS type in
        (dailyIncome + incomeGen config,
         dailyPopGrowth + popGen config,
         if type = Residential then resCount + 1 else resCount))
     else (dailyIncome, dailyPopGrowth, resCount))"

definition visit :: "Grid \<Rightarrow> nat \<Rightarrow> nat \<Rightarrow> error + int \<times> int \<times> int \<Rightarrow> error + int \<times> int \<times> int" where
  "visit g y x acc =
     (case acc of
        Inl e \<Rightarrow> Inl e
      | Inr a \<Rightarrow> (case tileAt g y x of Inl e \<Rightarrow> Inl e | Inr tile \<Rightarrow> Inr (accumulate tile a)))"

definition scanRow :: "Grid \<Rightarrow> nat \<Rightarrow> error + int \<times> int \<times> int \<Rightarrow> error + int \<times> int \<times> int" where
  "scanRow g y acc = fold (visit g y) [0..<GRID_SIZE] acc"

definition scanGrid :: "Grid \<Rightarrow> error + int \<times> int \<times> int" where
  "scanGrid g = fold (scanRow g) [0..<GRID_SIZE] (Inr (0, 0, 0))"

text \<open>\<^verbatim>\<open>calculateNextDay\<close> of features/city/logic/simulation (named constants).\<close>

definition calculateNextDay :: "CityStats \<Rightarrow> Grid \<Rightarrow> error + CityStats" where
  "calculateNextDay currentStats g =
     (case scanGrid g of
        Inl e \<Rightarrow> Inl e
      | Inr (dailyIncome, dailyPopGrowth, resCount) \<Rightarrow>
          (let maxPop = resCount * MAX_POP_PER_RESIDENTIAL;
               newPop = population currentStats + dailyPopGrowth;
               newPop = (if newPop > maxPop then maxPop else newPop);
               newPop = (if resCount = 0 \<and> population currentStats > 0
                         then max 0 (population currentStats - NO_HOUSING_DECAY)
                         else newPop)
           in Inr \<lparr>money = money currentStats + dailyIncome,
                   population = newPop,
                   day = day currentStats + 1\<rparr>))"

text \<open>\<^verbatim>\<open>calculateNextDay\<close> of lib/simulation (the same loop, literals 50 and 5).\<close>

definition calculateNextDay_lib :: "CityStats \<Rightarrow> Grid \<Rightarrow> error + CityStats" where
  "calculateNextDay_lib currentStats g =
     (case scanGrid g of
        Inl e \<Rightarrow> Inl e
      | Inr (dailyIncome, dailyPopGrowth, resCount) \<Rightarrow>
          (let maxPop = resCount * 50;
               newPop = population currentStats + dailyPopGrowth;
               newPop = (if newPop > maxPop then maxPop else newPop);
               newPop = (if resCount = 0 \<and> population currentStats > 0
                         then max 0 (population currentStats - 5)
                         else newPop)
           in Inr \<lparr>money = money currentStats + dailyIncome,
                   population = newPop,
                   day = day currentStats + 1\<rparr>))"

text \<open>
  \<^verbatim>\<open>BUILDINGS[type]?.cost || 0\<close>: the cost, or 0 when the cost is falsy (that is, 0).
\<close>

definition costOrZero :: "BuildingType \<Rightarrow> int" where
  "costOrZero type = (let c = cost (BUILDINGS type) in if c \<noteq> 0 then c else 0)"

definition canAfford :: "int \<Rightarrow> BuildingType \<Rightarrow> bool" where
  "canAfford currentMoney type =
     (if type = NoneBT then currentMoney \<ge> DEMOLISH_COST
      else currentMoney \<ge> costOrZero type)"

text \<open>\<^verbatim>\<open>canAffordBuilding\<close> of lib/simulation: no demolition branch.\<close>

definition canAffordBuilding :: "int \<Rightarrow> BuildingType \<Rightarrow> bool" where
  "canAffordBuilding currentMoney type = (currentMoney \<ge> costOrZero type)"

text \<open>
  \<^verbatim>\<open>checkGoalCompletion\<close>; the goal argument may be \<^verbatim>\<open>null\<close>. The count runs over
  every row and every tile of the grid (\<^verbatim>\<open>for ... of\<close>).
\<close>

definition countInRow :: "BuildingType \<Rightarrow> TileData list \<Rightarrow> int \<Rightarrow> int" where
  "countInRow b row count =
     fold (\<lambda>tile count. if buildingType tile = b then count + 1 else count) row count"

definition checkGoalCompletion :: "Grid \<Rightarrow> CityStats \<Rightarrow> AIGoal option \<Rightarrow> bool" where
  "checkGoalCompletion g stats goal =
     (case goal of
        None \<Rightarrow> False
      | Some gl \<Rightarrow>
          if completed gl then False
          else if targetType gl = TT_money \<and> money stats \<ge> targetValue gl then True
          else if targetType gl = TT_population \<and> population stats \<ge> targetValue gl then True
          else (case (targetType gl, goal_buildingType gl) of
                  (TT_building_count, Some b) \<Rightarrow>
                     (let count = fold (countInRow b) g 0 in
                      if count \<ge> targetValue gl then True else False)
                | _ \<Rightarrow> False))"

section \<open>Quantities the properties are stated with\<close>

definition wf_grid :: "Grid \<Rightarrow> bool" where
  "wf_grid g = (length g = GRID_SIZE \<and> list_all (\<lambda>row. length row = GRID_SIZE) g)"

definition countTiles :: "BuildingType \<Rightarrow> Grid \<Rightarrow> nat" where
  "countTiles b g = length (filter (\<lambda>t. buildingType t = b) (concat g))"

definition residentialCount :: "Grid \<Rightarrow> int" where
  "residentialCount g = int (countTiles Residential g)"

definition dailyIncome :: "Grid \<Rightarrow> int" where
  "dailyIncome g = sum_list (map (\<lambda>t. incomeGen (BUILDINGS (buildingType t))) (concat g))"

definition dailyPopGrowth :: "Grid \<Rightarrow> int" where
  "dailyPopGrowth g = sum_list (map (\<lambda>t. popGen (BUILDINGS (buildingType t))) (concat g))"

text \<open>
  The threshold of a goal in the words of the specification: money and population are
  compared with the target value, and for \<^verbatim>\<open>building_count\<close> the number of tiles whose
  building type is the goal's building type is compared with it.
\<close>

definition goalTileCount :: "AIGoal \<Rightarrow> Grid \<Rightarrow> nat" where
  "goalTileCount gl g =
     length (filter (\<lambda>t. Some (buildingType t) = goal_buildingType gl) (concat g))"

definition thresholdMet :: "Grid \<Rightarrow> CityStats \<Rightarrow> AIGoal \<Rightarrow> bool" where
  "thresholdMet g S gl =
     (case targetType gl of
        TT_money \<Rightarrow> money S \<ge> targetValue gl
      | TT_population \<Rightarrow> population S \<ge> targetValue gl
      | TT_building_count \<Rightarrow> int (goalTileCount gl g) \<ge> targetValue gl)"

text \<open>
  Two grids of the same shape whose tiles have the same coordinates everywhere and the
  same building type everywhere except possibly at column \<open>x\<close> of row \<open>y\<close>.
\<close>

definition sameElsewhere :: "nat \<Rightarrow> nat \<Rightarrow> Grid \<Rightarrow> Grid \<Rightarrow> bool" where
  "sameElsewhere x y g g' =
     (length g' = length g \<and>
      (\<forall>j<length g. length (g' ! j) = length (g ! j) \<and>
         (\<forall>i<length (g ! j).
            tile_x (g' ! j ! i) = tile_x (g ! j ! i) \<and>
            tile_y (g' ! j ! i) = tile_y (g ! j ! i) \<and>
            ((i, j) \<noteq> (x, y) \<longrightarrow> buildingType (g' ! j ! i) = buildingType (g ! j ! i)))))"

text \<open>The running income of the scan is not negative (or the scan has thrown).\<close>

definition incomeOk :: "error + int \<times> int \<times> int \<Rightarrow> bool" where
  "incomeOk acc = (case acc of Inl e \<Rightarrow> True | Inr (i, p, r) \<Rightarrow> 0 \<le> i)"


section \<open>Store (store/gameStore)\<close>

text \<open>
  The state of the store that the commands read and write. \<^verbatim>\<open>volume\<close> and
  \<^verbatim>\<open>installPrompt\<close> belong to the settings dialog and no command below touches them.
\<close>

record GameStore =
  grid :: Grid
  selectedTool :: BuildingType
  gameStarted :: bool
  isPaused :: bool
  stats :: CityStats
  aiEnabled :: bool
  currentGoal :: "AIGoal option"
  isGeneratingGoal :: bool
  newsFeed :: "NewsItem list"

text \<open>The cue handed to \<^verbatim>\<open>audioService.play\<close>; a command plays at most one.\<close>

datatype sound = bulldoze | build | error_cue | success

definition createInitialGrid :: Grid where
  "createInitialGrid =
     map (\<lambda>y. map (\<lambda>x. \<lparr>tile_x = int x, tile_y = int y, buildingType = NoneBT\<rparr>) [0..<GRID_SIZE])
       [0..<GRID_SIZE]"

definition INITIAL_STATS :: CityStats where
  "INITIAL_STATS = \<lparr>money = INITIAL_MONEY, population = 0, day = 1\<rparr>"

definition initialStore :: GameStore where
  "initialStore =
     \<lparr>grid = createInitialGrid, selectedTool = Road, gameStarted = False, isPaused = False,
      stats = INITIAL_STATS, aiEnabled = True, currentGoal = None, isGeneratingGoal = False,
      newsFeed = []\<rparr>"

text \<open>
  \<^verbatim>\<open>Number.prototype.toString\<close> on an integer: its decimal digits (plain digits are
  what JavaScript prints for magnitudes below \<open>10\<^sup>2\<^sup>1\<close>).
\<close>

definition digit :: "nat \<Rightarrow> char" where
  "digit n = ''0123456789'' ! (n mod 10)"

function showNat :: "nat \<Rightarrow> string" where
  "showNat n = (if n < 10 then [digit n] else showNat (n div 10) @ [digit n])"
  by pat_completeness auto
termination
  by (relation "measure (\<lambda>n. n)") auto

declare showNat.simps [simp del]

definition numberToString :: "int \<Rightarrow> string" where
  "numberToString i = (if i < 0 then CHR ''-'' # showNat (nat (- i)) else showNat (nat i))"

text \<open>
  Addition of two JavaScript numbers that hold integers. A \<^verbatim>\<open>number\<close> is an IEEE-754
  double: every integer up to \<^verbatim>\<open>Number.MAX_SAFE_INTEGER\<close> (\<open>2\<^sup>5\<^sup>3 - 1\<close>) in magnitude is
  a double, and beyond it the doubles are the multiples of \<open>ulp\<close>: 2 up to \<open>2\<^sup>5\<^sup>4\<close>, 4 up
  to \<open>2\<^sup>5\<^sup>5\<close>, and so on. The sum of two doubles is the exact sum rounded to the nearest
  double, a tie going to the one with the even mantissa. (A sum of magnitude \<open>2\<^sup>1\<^sup>0\<^sup>2\<^sup>4\<close>
  or more is \<^verbatim>\<open>Infinity\<close> in JavaScript, which is beyond \<^typ>\<open>int\<close>; it is not negative
  either.)
\<close>

definition MAX_SAFE_INTEGER :: int where
  "MAX_SAFE_INTEGER = 9007199254740991"

function ulp :: "nat \<Rightarrow> nat" where
  "ulp a = (if int a \<le> MAX_SAFE_INTEGER then 1 else 2 * ulp (a div 2))"
  by pat_completeness auto
termination
  by (relation "measure (\<lambda>a. a)") (auto simp add: MAX_SAFE_INTEGER_def)

declare ulp.simps [simp del]

definition roundNat :: "nat \<Rightarrow> nat" where
  "roundNat a =
     (let u = ulp a; q = a div u; r = a mod u in
      if 2 * r < u then q * u
      else if 2 * r > u then (q + 1) * u
      else if even q then q * u else (q + 1) * u)"

definition roundDouble :: "int \<Rightarrow> int" where
  "roundDouble n = (if n < 0 then - int (roundNat (nat (- n))) else int (roundNat (nat n)))"

definition jsAdd :: "int \<Rightarrow> int \<Rightarrow> int" where
  "jsAdd a b = roundDouble (a + b)"

text \<open>\<^verbatim>\<open>[...state.newsFeed.slice(-12), news]\<close>: the last twelve entries, then the new one.\<close>

definition addNews :: "NewsItem \<Rightarrow> GameStore \<Rightarrow> GameStore" where
  "addNews news s =
     s\<lparr>newsFeed := drop (length (newsFeed s) - 12) (newsFeed s) @ [news]\<rparr>"

text \<open>
  \<^verbatim>\<open>newGrid = [...grid]; newGrid[y] = [...newGrid[y]]; newGrid[y][x] = t\<close>, reached only
  after \<^verbatim>\<open>grid[y][x]\<close> has been read successfully.
\<close>

definition setTile :: "Grid \<Rightarrow> nat \<Rightarrow> nat \<Rightarrow> TileData \<Rightarrow> Grid" where
  "setTile g y x t = g[y := (g ! y)[x := t]]"

definition setTool :: "BuildingType \<Rightarrow> GameStore \<Rightarrow> GameStore" where
  "setTool tool s = s\<lparr>selectedTool := tool\<rparr>"

definition startGame :: "bool \<Rightarrow> GameStore \<Rightarrow> GameStore" where
  "startGame enabled s = s\<lparr>gameStarted := True, isPaused := False, aiEnabled := enabled\<rparr>"

definition togglePause :: "GameStore \<Rightarrow> GameStore" where
  "togglePause s = s\<lparr>isPaused := \<not> isPaused s\<rparr>"

definition setGoal :: "AIGoal option \<Rightarrow> GameStore \<Rightarrow> GameStore" where
  "setGoal goal s = s\<lparr>currentGoal := goal\<rparr>"

text \<open>
  \<^verbatim>\<open>placeBuilding\<close> of store/gameStore. \<open>now\<close> is the value of \<^verbatim>\<open>Date.now()\<close>. The
  coordinates are the indices of the clicked tile. Both branches read
  \<^verbatim>\<open>tile.buildingType\<close> before anything else, so an index outside the grid throws.
\<close>

definition placeBuilding :: "nat \<Rightarrow> nat \<Rightarrow> nat \<Rightarrow> GameStore \<Rightarrow> error + GameStore \<times> sound option" where
  "placeBuilding x y now s =
     (if isPaused s then Inr (s, None)
      else
        (case tileAt (grid s) y x of
           Inl e \<Rightarrow> Inl e
         | Inr tile \<Rightarrow>
             (let config = BUILDINGS (selectedTool s) in
              if selectedTool s = NoneBT then
                (if buildingType tile \<noteq> NoneBT then
                   (let demolishCost = 5 in
                    if money (stats s) \<ge> demolishCost then
                      Inr (s\<lparr>grid := setTile (grid s) y x (tile\<lparr>buildingType := NoneBT\<rparr>),
                             stats := (stats s)\<lparr>money := money (stats s) - demolishCost\<rparr>\<rparr>,
                           Some bulldoze)
                    else
                      Inr (addNews \<lparr>news_id = numberToString (int now),
                                    news_text = ''Cannot afford demolition.'',
                                    news_type = negative\<rparr> s,
                           Some error_cue))
                 else Inr (s, None))
              else if buildingType tile = NoneBT then
                (if canAffordBuilding (money (stats s)) (selectedTool s) then
                   Inr (s\<lparr>grid := setTile (grid s) y x (tile\<lparr>buildingType := selectedTool s\<rparr>),
                          stats := (stats s)\<lparr>money := money (stats s) - cost config\<rparr>\<rparr>,
                        Some build)
                 else
                   Inr (addNews \<lparr>news_id = numberToString (int now),
                                 news_text = ''Insufficient funds for '' @ name config @ ''.'',
                                 news_type = negative\<rparr> s,
                        Some error_cue))
              else Inr (s, None))))"

text \<open>
  \<^verbatim>\<open>placeBuilding\<close> of the store that imports from the modular locations: the
  demolition test is \<^verbatim>\<open>canAfford(stats.money, BuildingType.None)\<close> and the price is
  \<^verbatim>\<open>DEMOLISH_COST\<close>.
\<close>

definition placeBuilding_modular :: "nat \<Rightarrow> nat \<Rightarrow> nat \<Rightarrow> GameStore \<Rightarrow> error + GameStore \<times> sound option" where
  "placeBuilding_modular x y now s =
     (if isPaused s then Inr (s, None)
      else
        (case tileAt (grid s) y x of
           Inl e \<Rightarrow> Inl e
         | Inr tile \<Rightarrow>
             (let config = BUILDINGS (selectedTool s) in
              if selectedTool s = NoneBT then
                (if buildingType tile \<noteq> NoneBT then
                   (if canAfford (money (stats s)) NoneBT then
                      Inr (s\<lparr>grid := setTile (grid s) y x (tile\<lparr>buildingType := NoneBT\<rparr>),
                             stats := (stats s)\<lparr>money := money (stats s) - DEMOLISH_COST\<rparr>\<rparr>,
                           Some bulldoze)
                    else
                      Inr (addNews \<lparr>news_id = numberToString (int now),
                                    news_text = ''Cannot afford demolition.'',
                                    news_type = negative\<rparr> s,
                           Some error_cue))
                 else Inr (s, None))
              else if buildingType tile = NoneBT then
                (if canAfford (money (stats s)) (selectedTool s) then
                   Inr (s\<lparr>grid := setTile (grid s) y x (tile\<lparr>buildingType := selectedTool s\<rparr>),
                          stats := (stats s)\<lparr>money := money (stats s) - cost config\<rparr>\<rparr>,
                        Some build)
                 else
                   Inr (addNews \<lparr>news_id = numberToString (int now),
                                 news_text = ''Insufficient funds for '' @ name config @ ''.'',
                                 news_type = negative\<rparr> s,
                        Some error_cue))
              else Inr (s, None))))"

text \<open>
  \<^verbatim>\<open>buildingCounts\<close> of \<^verbatim>\<open>tick\<close>: a table from building type to the number of tiles,
  filled by \<^verbatim>\<open>grid.flat().forEach\<close> with \<^verbatim>\<open>(buildingCounts[t] || 0) + 1\<close>.
\<close>

definition bumpCount :: "TileData \<Rightarrow> (BuildingType \<rightharpoonup> int) \<Rightarrow> (BuildingType \<rightharpoonup> int)" where
  "bumpCount t m =
     m(buildingType t \<mapsto> (case m (buildingType t) of None \<Rightarrow> 0 | Some c \<Rightarrow> if c \<noteq> 0 then c else 0) + 1)"

definition buildingCounts :: "Grid \<Rightarrow> (BuildingType \<rightharpoonup> int)" where
  "buildingCounts g = fold bumpCount (concat g) Map.empty"

definition countOrZero :: "(BuildingType \<rightharpoonup> int) \<Rightarrow> BuildingType \<Rightarrow> int" where
  "countOrZero m b = (case m b of None \<Rightarrow> 0 | Some c \<Rightarrow> if c \<noteq> 0 then c else 0)"

text \<open>\<^verbatim>\<open>tick\<close> of store/gameStore, with the goal check written inline.\<close>

definition tick :: "GameStore \<Rightarrow> error + GameStore" where
  "tick s =
     (if isPaused s then Inr s
      else
        (case calculateNextDay_lib (stats s) (grid s) of
           Inl e \<Rightarrow> Inl e
         | Inr newStats \<Rightarrow>
             (let updatedGoal =
                (case currentGoal s of
                   None \<Rightarrow> None
                 | Some cg \<Rightarrow>
                     if aiEnabled s \<and> \<not> completed cg then
                       (let counts = buildingCounts (grid s);
                            isMet = False;
                            isMet = (if targetType cg = TT_money \<and> money newStats \<ge> targetValue cg
                                     then True else isMet);
                            isMet = (if targetType cg = TT_population \<and> population newStats \<ge> targetValue cg
                                     then True else isMet);
                            isMet = (case (targetType cg, goal_buildingType cg) of
                                       (TT_building_count, Some b) \<Rightarrow>
                                          if countOrZero counts b \<ge> targetValue cg then True else isMet
                                     | _ \<Rightarrow> isMet)
                        in if isMet then Some (cg\<lparr>completed := True\<rparr>) else Some cg)
                     else Some cg)
              in Inr (s\<lparr>stats := newStats, currentGoal := updatedGoal\<rparr>))))"

text \<open>\<^verbatim>\<open>tick\<close> of the modular store, delegating to \<^verbatim>\<open>checkGoalCompletion\<close>.\<close>

definition tick_modular :: "GameStore \<Rightarrow> error + GameStore" where
  "tick_modular s =
     (if isPaused s then Inr s
      else
        (case calculateNextDay (stats s) (grid s) of
           Inl e \<Rightarrow> Inl e
         | Inr newStats \<Rightarrow>
             (let updatedGoal =
                (case currentGoal s of
                   None \<Rightarrow> None
                 | Some cg \<Rightarrow>
                     if aiEnabled s \<and> \<not> completed cg then
                       (if checkGoalCompletion (grid s) newStats (Some cg)
                        then Some (cg\<lparr>completed := True\<rparr>) else Some cg)
                     else Some cg)
              in Inr (s\<lparr>stats := newStats, currentGoal := updatedGoal\<rparr>))))"

text \<open>
  \<^verbatim>\<open>claimReward\<close>, the same text in both stores. The reward is whatever positive
  integer the goal service sent, so \<^verbatim>\<open>state.stats.money + currentGoal.reward\<close> is the
  addition of doubles.
\<close>

definition claimReward :: "nat \<Rightarrow> GameStore \<Rightarrow> GameStore \<times> sound option" where
  "claimReward now s =
     (case currentGoal s of
        None \<Rightarrow> (s, None)
      | Some cg \<Rightarrow>
          if completed cg then
            (addNews \<lparr>news_id = numberToString (int now),
                      news_text = ''Goal achieved! '' @ numberToString (reward cg) @ '' collected.'',
                      news_type = positive\<rparr>
               (s\<lparr>stats := (stats s)\<lparr>money := jsAdd (money (stats s)) (reward cg)\<rparr>,
                  currentGoal := None\<rparr>),
             Some success)
          else (s, None))"


text \<open>\<^verbatim>\<open>resetGame\<close>: \<^verbatim>\<open>resetGrid\<close>, \<^verbatim>\<open>resetEconomy\<close> and \<^verbatim>\<open>resetAI\<close> in turn.\<close>

definition resetGame :: "GameStore \<Rightarrow> GameStore" where
  "resetGame s =
     s\<lparr>grid := createInitialGrid, selectedTool := Road,
       gameStarted := False, isPaused := False, stats := INITIAL_STATS,
       currentGoal := None, newsFeed := [], isGeneratingGoal := False\<rparr>"

text \<open>
  The stores a session can be in: the new game, and whatever the commands make of it. A
  goal enters the store through \<^verbatim>\<open>setGoal\<close> after \<^verbatim>\<open>GoalResponseSchema\<close> has accepted
  it, so its reward is positive.
\<close>

inductive reachable :: "GameStore \<Rightarrow> bool" where
  reachable_init: "reachable initialStore"
| reachable_setTool: "reachable s \<Longrightarrow> reachable (setTool tool s)"
| reachable_startGame: "reachable s \<Longrightarrow> reachable (startGame enabled s)"
| reachable_togglePause: "reachable s \<Longrightarrow> reachable (togglePause s)"
| reachable_setGoal:
    "reachable s \<Longrightarrow> (case goal of None \<Rightarrow> True | Some g \<Rightarrow> 0 < reward g) \<Longrightarrow>
     reachable (setGoal goal s)"
| reachable_addNews: "reachable s \<Longrightarrow> reachable (addNews news s)"
| reachable_placeBuilding:
    "reachable s \<Longrightarrow> placeBuilding x y now s = Inr (s', c) \<Longrightarrow> reachable s'"
| reachable_tick: "reachable s \<Longrightarrow> tick s = Inr s' \<Longrightarrow> reachable s'"
| reachable_claimReward: "reachable s \<Longrightarrow> reachable (fst (claimReward now s))"
| reachable_resetGame: "reachable s \<Longrightarrow> reachable (resetGame s)"

text \<open>The current goal, if there is one, has a positive reward.\<close>

definition rewardOk :: "GameStore \<Rightarrow> bool" where
  "rewardOk s = (case currentGoal s of None \<Rightarrow> True | Some g \<Rightarrow> 0 < reward g)"

section \<open>Agents (TrafficSystem and PopulationSystem)\<close>

text \<open>
  Both components derive a list of tile positions from the grid, size an instanced mesh,
  and fill a state array when the list or the count changes. Random draws are the
  parameter \<open>pick\<close>: \<open>pick k mod n\<close> stands for the \<open>k\<close>-th value of
  \<^verbatim>\<open>Math.floor(Math.random() * n)\<close>. The speed, the colour and the jitter inside a tile
  are random fractions that no count depends on; the state below keeps the tiles.
\<close>

type_synonym Pos = "int \<times> int"

definition roadTiles :: "Grid \<Rightarrow> Pos list" where
  "roadTiles g =
     map (\<lambda>tile. (tile_x tile, tile_y tile)) (filter (\<lambda>tile. buildingType tile = Road) (concat g))"

definition carCount :: "Grid \<Rightarrow> nat" where
  "carCount g = min (length (roadTiles g)) 30"

record Car =
  curX :: int
  curY :: int
  tarX :: int
  tarY :: int
  progress :: int

text \<open>
  The effect of \<^verbatim>\<open>TrafficSystem\<close>: with fewer than two road tiles it returns before
  touching \<^verbatim>\<open>carsState\<close> (the previous array stays), otherwise it allocates
  \<open>carCount\<close> cars.
\<close>

definition TrafficSystem_spawn :: "(nat \<Rightarrow> nat) \<Rightarrow> Grid \<Rightarrow> Car list \<Rightarrow> Car list" where
  "TrafficSystem_spawn pick g carsState =
     (let roads = roadTiles g in
      if length roads < 2 then carsState
      else map (\<lambda>i. let startNode = roads ! (pick i mod length roads) in
                     \<lparr>curX = fst startNode, curY = snd startNode,
                      tarX = fst startNode, tarY = snd startNode, progress = 1\<rparr>)
             [0..<carCount g])"

text \<open>
  What \<^verbatim>\<open>TrafficSystem\<close> renders: \<^verbatim>\<open>null\<close>, or an instanced mesh with \<open>carCount\<close>
  instances.
\<close>

definition TrafficSystem_mesh :: "Grid \<Rightarrow> nat option" where
  "TrafficSystem_mesh g = (if length (roadTiles g) < 2 then None else Some (carCount g))"

definition walkableTiles :: "Grid \<Rightarrow> Pos list" where
  "walkableTiles g =
     map (\<lambda>tile. (tile_x tile, tile_y tile))
       (filter (\<lambda>tile. buildingType tile = Road \<or> buildingType tile = Park \<or> buildingType tile = NoneBT)
          (concat g))"

text \<open>\<^verbatim>\<open>Math.min(Math.floor(population / 2), 300)\<close>; \<open>div\<close> on \<^typ>\<open>int\<close> rounds down.\<close>

definition agentCount :: "int \<Rightarrow> int" where
  "agentCount pop = min (pop div 2) 300"

record Walker =
  at_tile :: Pos
  target_tile :: Pos

text \<open>
  The effect of \<^verbatim>\<open>PopulationSystem\<close>: it returns before touching \<^verbatim>\<open>agentsState\<close>
  when the count is 0 or no tile is walkable; \<^verbatim>\<open>new Float32Array\<close> of a negative
  length throws a RangeError.
\<close>

definition PopulationSystem_spawn :: "(nat \<Rightarrow> nat) \<Rightarrow> int \<Rightarrow> Grid \<Rightarrow> Walker list \<Rightarrow> error + Walker list" where
  "PopulationSystem_spawn pick pop g agentsState =
     (let n = agentCount pop; tiles = walkableTiles g in
      if n = 0 \<or> length tiles = 0 then Inr agentsState
      else if n < 0 then Inl RangeError
      else Inr (map (\<lambda>i. \<lparr>at_tile = tiles ! (pick (2 * i) mod length tiles),
                          target_tile = tiles ! (pick (2 * i + 1) mod length tiles)\<rparr>)
                  [0..<nat n]))"

text \<open>
  What \<^verbatim>\<open>PopulationSystem\<close> renders: \<^verbatim>\<open>null\<close> when the count is 0, otherwise an
  instanced mesh with \<open>agentCount\<close> instances.
\<close>

definition PopulationSystem_mesh :: "int \<Rightarrow> Grid \<Rightarrow> int option" where
  "PopulationSystem_mesh pop g = (if agentCount pop = 0 then None else Some (agentCount pop))"

text \<open>The number of agents on screen: the instance count of the mesh, 0 without a mesh.\<close>

definition vehiclesEmitted :: "Grid \<Rightarrow> nat" where
  "vehiclesEmitted g = (case TrafficSystem_mesh g of None \<Rightarrow> 0 | Some n \<Rightarrow> n)"

definition pedestriansEmitted :: "int \<Rightarrow> Grid \<Rightarrow> int" where
  "pedestriansEmitted pop g = (case PopulationSystem_mesh pop g of None \<Rightarrow> 0 | Some n \<Rightarrow> n)"

section \<open>Example states\<close>


text \<open>A city built up with houses everywhere except for one road tile at (0, 0).\<close>

definition builtUpGrid :: Grid where
  "builtUpGrid =
     setTile (map (map (\<lambda>t. t\<lparr>buildingType := Residential\<rparr>)) createInitialGrid) 0 0
       \<lparr>tile_x = 0, tile_y = 0, buildingType = Road\<rparr>"

text \<open>The empty city with one house at (0, 0).\<close>

definition houseGrid :: Grid where
  "houseGrid = setTile createInitialGrid 0 0 \<lparr>tile_x = 0, tile_y = 0, buildingType = Residential\<rparr>"

text \<open>A goal asking for one road.\<close>

definition roadGoal :: AIGoal where
  "roadGoal =
     \<lparr>description = ''Build a road'', targetType = TT_building_count, targetValue = 1,
      goal_buildingType = Some Road, reward = 100, completed = False\<rparr>"

text \<open>A goal asking for a treasury of 2000, already met.\<close>

definition moneyGoal :: AIGoal where
  "moneyGoal =
     \<lparr>description = ''Reach 2000'', targetType = TT_money, targetValue = 2000,
      goal_buildingType = None, reward = 500, completed = True\<rparr>"

text \<open>The new game with the road tool selected and 3 in the treasury.\<close>

definition poorStore :: GameStore where
  "poorStore = initialStore\<lparr>stats := \<lparr>money = 3, population = 0, day = 1\<rparr>\<rparr>"

text \<open>A treasury of 2000 and the completed goal waiting for its claim.\<close>

definition richStore :: GameStore where
  "richStore =
     initialStore\<lparr>stats := \<lparr>money = 2000, population = 0, day = 1\<rparr>, currentGoal := Some moneyGoal\<rparr>"

text \<open>
  A completed goal whose reward is \<open>2\<^sup>5\<^sup>3 - 2\<close>, a positive integer and a double, and a
  treasury of 985 (the new game after a road and its demolition).
\<close>

definition hugeRewardGoal :: AIGoal where
  "hugeRewardGoal =
     \<lparr>description = ''Reach 900'', targetType = TT_money, targetValue = 900,
      goal_buildingType = None, reward = 9007199254740990, completed = True\<rparr>"

definition hugeRewardStore :: GameStore where
  "hugeRewardStore =
     initialStore\<lparr>stats := \<lparr>money = 985, population = 0, day = 1\<rparr>,
                    currentGoal := Some hugeRewardGoal\<rparr>"

text \<open>The new game with the bulldozer selected.\<close>

definition bulldozerStore :: GameStore where
  "bulldozerStore = setTool NoneBT initialStore"

text \<open>The road tool selected in the city with one house at (0, 0).\<close>

definition houseStore :: GameStore where
  "houseStore = initialStore\<lparr>grid := houseGrid\<rparr>"

text \<open>The empty city with roads on every tile of rows 0, 1 and 2.\<close>

definition roadsGrid :: Grid where
  "roadsGrid =
     map (map (\<lambda>t. if tile_y t < 3 then t\<lparr>buildingType := Road\<rparr> else t)) createInitialGrid"

text \<open>A source of draws for the examples: the \<open>k\<close>-th draw is \<open>7 * k\<close>.\<close>

definition pickSevenths :: "nat \<Rightarrow> nat" where
  "pickSevenths k = 7 * k"

section \<open>The scan of the grid\<close>

text \<open>
  On a grid of \<open>GRID_SIZE\<close> rows of \<open>GRID_SIZE\<close> tiles the indexed double loop never
  reads outside the grid and visits every tile once, in row order.
\<close>

lemma visit_fold:
  "y < length g \<Longrightarrow> n \<le> length (g ! y) \<Longrightarrow>
   fold (visit g y) [0..<n] (Inr a) = Inr (fold accumulate (take n (g ! y)) a)"
proof (induction n)
  case 0
  then show ?case by simp
next
  case (Suc n)
  then have "n < length (g ! y)" by simp
  with Suc show ?case
    by (simp add: take_Suc_conv_app_nth visit_def tileAt_def)
qed

lemma scanRow_wf:
  "y < length g \<Longrightarrow> length (g ! y) = GRID_SIZE \<Longrightarrow>
   scanRow g y (Inr a) = Inr (fold accumulate (g ! y) a)"
  using visit_fold [of y g GRID_SIZE a] by (simp add: scanRow_def)

lemma scanGrid_fold:
  "n \<le> length g \<Longrightarrow> \<forall>y<n. length (g ! y) = GRID_SIZE \<Longrightarrow>
   fold (scanRow g) [0..<n] (Inr a) = Inr (fold accumulate (concat (take n g)) a)"
proof (induction n)
  case 0
  then show ?case by simp
next
  case (Suc n)
  then have "n < length g" by simp
  with Suc show ?case
    by (simp add: take_Suc_conv_app_nth scanRow_wf)
qed

lemma accumulate_tile:
  "accumulate t (i, p, r) =
     (i + incomeGen (BUILDINGS (buildingType t)),
      p + popGen (BUILDINGS (buildingType t)),
      r + (if buildingType t = Residential then 1 else 0))"
  by (cases "buildingType t") (simp_all add: accumulate_def Let_def)

lemma fold_accumulate:
  "fold accumulate ts (i, p, r) =
     (i + sum_list (map (\<lambda>t. incomeGen (BUILDINGS (buildingType t))) ts),
      p + sum_list (map (\<lambda>t. popGen (BUILDINGS (buildingType t))) ts),
      r + int (length (filter (\<lambda>t. buildingType t = Residential) ts)))"
proof (induction ts arbitrary: i p r)
  case Nil
  then show ?case by simp
next
  case (Cons t ts)
  show ?case
    by (simp add: accumulate_tile Cons.IH)
qed

lemma scanGrid_wf:
  assumes "wf_grid g"
  shows "scanGrid g = Inr (dailyIncome g, dailyPopGrowth g, residentialCount g)"
proof -
  from assms have len: "length g = GRID_SIZE" and rows: "\<forall>y<GRID_SIZE. length (g ! y) = GRID_SIZE"
    by (simp_all add: wf_grid_def list_all_length)
  have "scanGrid g = Inr (fold accumulate (concat (take GRID_SIZE g)) (0, 0, 0))"
    unfolding scanGrid_def using scanGrid_fold [of GRID_SIZE g "(0, 0, 0)"] len rows by simp
  then show ?thesis
    using len
    by (simp add: fold_accumulate dailyIncome_def dailyPopGrowth_def residentialCount_def
        countTiles_def)
qed

lemma calculateNextDay_wf:
  assumes "wf_grid g"
  shows "calculateNextDay S g =
           Inr \<lparr>money = money S + dailyIncome g,
                population =
                  (if residentialCount g = 0 \<and> population S > 0
                   then max 0 (population S - NO_HOUSING_DECAY)
                   else min (population S + dailyPopGrowth g)
                          (residentialCount g * MAX_POP_PER_RESIDENTIAL)),
                day = day S + 1\<rparr>"
  by (simp add: calculateNextDay_def scanGrid_wf [OF assms] Let_def min_def)

text \<open>The two copies of \<^verbatim>\<open>calculateNextDay\<close> are the same function.\<close>

lemma calculateNextDay_lib_eq: "calculateNextDay_lib S g = calculateNextDay S g"
  unfolding calculateNextDay_lib_def calculateNextDay_def MAX_POP_PER_RESIDENTIAL_def
    NO_HOUSING_DECAY_def by (rule refl)

section \<open>Tick transition function\<close>

text \<open>
  Claim C1, as stated: the population returned by \<^verbatim>\<open>calculateNextDay\<close> is at most
  \<open>residentialCount G * 50\<close> for every grid and every stats. It fails on the empty city
  with 12 inhabitants: no house, so the cap is 0, and the decay branch returns 7.
\<close>

theorem C1_cap_counterexample:
  "calculateNextDay \<lparr>money = 1000, population = 12, day = 1\<rparr> createInitialGrid
     = Inr \<lparr>money = 1000, population = 7, day = 2\<rparr>
   \<and> \<not> (population \<lparr>money = 1000, population = 7, day = 2\<rparr>
          \<le> residentialCount createInitialGrid * MAX_POP_PER_RESIDENTIAL)"
  by code_simp

text \<open>
  Claim C1, amended: on a grid of \<open>GRID_SIZE\<close> by \<open>GRID_SIZE\<close> tiles, whenever there is
  a house or the population is at most 5, both copies of \<^verbatim>\<open>calculateNextDay\<close> return
  stats whose population is at most \<open>residentialCount G * MAX_POP_PER_RESIDENTIAL\<close>.
\<close>

theorem C1_population_cap:
  assumes "wf_grid G" and "residentialCount G \<noteq> 0 \<or> population S \<le> 5"
  shows "\<exists>S'. calculateNextDay S G = Inr S' \<and> calculateNextDay_lib S G = Inr S' \<and>
              population S' \<le> residentialCount G * MAX_POP_PER_RESIDENTIAL"
  using assms(2)
  by (auto simp add: calculateNextDay_lib_eq calculateNextDay_wf [OF assms(1)]
      NO_HOUSING_DECAY_def)

text \<open>
  One house and 48 inhabitants: the growth of 5 is cut at the cap of 50. No house and 3
  inhabitants: they leave, and 0 is the cap.
\<close>

theorem C1_population_cap_witness:
  "wf_grid houseGrid \<and> residentialCount houseGrid \<noteq> 0 \<and>
   (\<exists>S'. calculateNextDay \<lparr>money = 900, population = 48, day = 1\<rparr> houseGrid = Inr S' \<and>
         calculateNextDay_lib \<lparr>money = 900, population = 48, day = 1\<rparr> houseGrid = Inr S' \<and>
         population S' \<le> residentialCount houseGrid * MAX_POP_PER_RESIDENTIAL) \<and>
   wf_grid createInitialGrid \<and> residentialCount createInitialGrid = 0 \<and>
   population \<lparr>money = 1000, population = 3, day = 1\<rparr> \<le> 5 \<and>
   (\<exists>S'. calculateNextDay \<lparr>money = 1000, population = 3, day = 1\<rparr> createInitialGrid = Inr S' \<and>
         calculateNextDay_lib \<lparr>money = 1000, population = 3, day = 1\<rparr> createInitialGrid = Inr S' \<and>
         population S' \<le> residentialCount createInitialGrid * MAX_POP_PER_RESIDENTIAL)"
proof -
  have wf: "wf_grid houseGrid" by code_simp
  have res: "residentialCount houseGrid \<noteq> 0" by code_simp
  have wf0: "wf_grid createInitialGrid" by code_simp
  have res0: "residentialCount createInitialGrid = 0" by code_simp
  have pop0: "population \<lparr>money = 1000, population = 3, day = 1\<rparr> \<le> 5" by simp
  from res have h: "residentialCount houseGrid \<noteq> 0
                    \<or> population \<lparr>money = 900, population = 48, day = 1\<rparr> \<le> 5"
    by simp
  from pop0 have h0: "residentialCount createInitialGrid \<noteq> 0
                      \<or> population \<lparr>money = 1000, population = 3, day = 1\<rparr> \<le> 5"
    by simp
  note a = C1_population_cap [OF wf h]
  note b = C1_population_cap [OF wf0 h0]
  from wf res a wf0 res0 pop0 b show ?thesis by (intro conjI)
qed



section \<open>Affordability and goal validation\<close>

text \<open>
  Claim C3: \<^verbatim>\<open>canAfford\<close> with \<^verbatim>\<open>BuildingType.None\<close> holds exactly when the money
  is at least \<open>DEMOLISH_COST\<close>, which is 5; with any other type, exactly when the money is
  at least the cost in that type's configuration. (\<^verbatim>\<open>canAffordBuilding\<close>, which the
  older store calls for build tools only, compares with the configured cost for every type.)
\<close>

theorem C3_canAfford:
  "canAfford m t = (if t = NoneBT then m \<ge> DEMOLISH_COST else m \<ge> cost (BUILDINGS t))
   \<and> DEMOLISH_COST = 5
   \<and> canAffordBuilding m t = (m \<ge> cost (BUILDINGS t))"
  by (simp add: canAfford_def canAffordBuilding_def costOrZero_def DEMOLISH_COST_def Let_def)

lemma countInRow_eq:
  "countInRow b row c = c + int (length (filter (\<lambda>t. buildingType t = b) row))"
  unfolding countInRow_def by (induction row arbitrary: c) simp_all

lemma fold_countInRow:
  "fold (countInRow b) g c = c + int (countTiles b g)"
  by (induction g arbitrary: c) (simp_all add: countTiles_def countInRow_eq)

lemma goalTileCount_Some:
  "goal_buildingType gl = Some b \<Longrightarrow> goalTileCount gl g = countTiles b g"
  by (simp add: goalTileCount_def countTiles_def)

lemma goalTileCount_None:
  "goal_buildingType gl = None \<Longrightarrow> goalTileCount gl g = 0"
  by (simp add: goalTileCount_def)

text \<open>
  Claim C4: \<^verbatim>\<open>checkGoalCompletion\<close> is false for an absent goal and for a completed one;
  otherwise it is true exactly when the threshold of the goal's target type is met: money
  or population at least the target value, or, for \<^verbatim>\<open>building_count\<close>, at least that
  many tiles of the goal's building type. A \<^verbatim>\<open>building_count\<close> goal is taken to name
  its building type or to have a positive target value, as every validated goal has.
\<close>

theorem C4_checkGoalCompletion:
  assumes "targetType gl = TT_building_count \<longrightarrow> goal_buildingType gl \<noteq> None \<or> 0 < targetValue gl"
  shows "checkGoalCompletion G S None = False \<and>
         checkGoalCompletion G S (Some gl) = (\<not> completed gl \<and> thresholdMet G S gl)"
proof (cases "goal_buildingType gl")
  case None
  with assms show ?thesis
    by (cases "targetType gl")
       (auto simp add: checkGoalCompletion_def thresholdMet_def goalTileCount_None)
next
  case (Some b)
  then show ?thesis
    by (cases "targetType gl")
       (auto simp add: checkGoalCompletion_def thresholdMet_def goalTileCount_Some fold_countInRow)
qed

text \<open>The built-up city has one road, which meets the goal of one road.\<close>

theorem C4_checkGoalCompletion_witness:
  "targetType roadGoal = TT_building_count \<and> goal_buildingType roadGoal = Some Road
   \<and> 0 < targetValue roadGoal
   \<and> \<not> completed roadGoal \<and> thresholdMet builtUpGrid INITIAL_STATS roadGoal
   \<and> checkGoalCompletion builtUpGrid INITIAL_STATS (Some roadGoal)"
proof -
  have k: "targetType roadGoal = TT_building_count" by (simp add: roadGoal_def)
  have b: "goal_buildingType roadGoal = Some Road" by (simp add: roadGoal_def)
  have v: "0 < targetValue roadGoal" by (simp add: roadGoal_def)
  from b have h: "targetType roadGoal = TT_building_count \<longrightarrow>
                    goal_buildingType roadGoal \<noteq> None \<or> 0 < targetValue roadGoal"
    by simp
  have c: "\<not> completed roadGoal" by (simp add: roadGoal_def)
  have t: "thresholdMet builtUpGrid INITIAL_STATS roadGoal" by code_simp
  from C4_checkGoalCompletion [OF h, of builtUpGrid INITIAL_STATS] c t
  have r: "checkGoalCompletion builtUpGrid INITIAL_STATS (Some roadGoal)" by simp
  from k b v c t r show ?thesis by (intro conjI)
qed

section \<open>Placing and demolishing\<close>

lemma tileAt_in_range:
  "y < length g \<Longrightarrow> x < length (g ! y) \<Longrightarrow> tileAt g y x = Inr (g ! y ! x)"
  by (simp add: tileAt_def)

lemma tileAt_Inr:
  "tileAt g y x = Inr t \<Longrightarrow> y < length g \<and> x < length (g ! y) \<and> t = g ! y ! x"
  by (auto simp add: tileAt_def split: if_splits)

text \<open>The two copies of \<^verbatim>\<open>placeBuilding\<close> are the same function.\<close>

lemma placeBuilding_modular_eq: "placeBuilding_modular x y now s = placeBuilding x y now s"
  by (auto simp add: placeBuilding_modular_def placeBuilding_def canAfford_def
      canAffordBuilding_def DEMOLISH_COST_def Let_def split: sum.splits)

lemma placeBuilding_returns:
  assumes "y < length (grid s)" and "x < length (grid s ! y)"
  shows "\<exists>s' c. placeBuilding x y now s = Inr (s', c)"
  using assms by (simp add: placeBuilding_def tileAt_in_range Let_def)

text \<open>The two successful outcomes.\<close>

lemma placeBuilding_build:
  assumes "\<not> isPaused s" and "y < length (grid s)" and "x < length (grid s ! y)"
    and "selectedTool s \<noteq> NoneBT" and "buildingType (grid s ! y ! x) = NoneBT"
    and "cost (BUILDINGS (selectedTool s)) \<le> money (stats s)"
  shows "placeBuilding x y now s =
           Inr (s\<lparr>grid := setTile (grid s) y x ((grid s ! y ! x)\<lparr>buildingType := selectedTool s\<rparr>),
                  stats := (stats s)\<lparr>money := money (stats s) - cost (BUILDINGS (selectedTool s))\<rparr>\<rparr>,
                Some build)"
  using assms
  by (simp add: placeBuilding_def tileAt_in_range canAffordBuilding_def costOrZero_def Let_def)

lemma placeBuilding_demolish:
  assumes "\<not> isPaused s" and "y < length (grid s)" and "x < length (grid s ! y)"
    and "selectedTool s = NoneBT" and "buildingType (grid s ! y ! x) \<noteq> NoneBT"
    and "5 \<le> money (stats s)"
  shows "placeBuilding x y now s =
           Inr (s\<lparr>grid := setTile (grid s) y x ((grid s ! y ! x)\<lparr>buildingType := NoneBT\<rparr>),
                  stats := (stats s)\<lparr>money := money (stats s) - 5\<rparr>\<rparr>,
                Some bulldoze)"
  using assms
  by (simp add: placeBuilding_def tileAt_in_range Let_def)

lemma placeBuilding_grid:
  assumes "placeBuilding x y now s = Inr (s', c)"
  shows "grid s' = grid s \<or>
         (y < length (grid s) \<and> x < length (grid s ! y) \<and>
          (\<exists>b. grid s' = setTile (grid s) y x ((grid s ! y ! x)\<lparr>buildingType := b\<rparr>)))"
  using assms
  by (auto simp add: placeBuilding_def addNews_def Let_def split: if_splits sum.splits
      dest!: tileAt_Inr)

lemma setTile_length: "length (setTile g y x t) = length g"
  by (simp add: setTile_def)

lemma setTile_row_length: "j < length g \<Longrightarrow> length (setTile g y x t ! j) = length (g ! j)"
  by (cases "j = y") (simp_all add: setTile_def)

lemma setTile_other:
  "j < length g \<Longrightarrow> i < length (g ! j) \<Longrightarrow> (i, j) \<noteq> (x, y) \<Longrightarrow>
   setTile g y x t ! j ! i = g ! j ! i"
  by (cases "j = y") (auto simp add: setTile_def)

lemma setTile_same:
  "y < length g \<Longrightarrow> x < length (g ! y) \<Longrightarrow> setTile g y x t ! y ! x = t"
  by (simp add: setTile_def)

text \<open>
  Claim C5: when the store is not paused, the coordinate is in the grid, and the
  affordability check fails (demolishing a building with less than 5, or building on an
  empty tile with less than the tool's cost), \<^verbatim>\<open>placeBuilding\<close> plays the error cue and
  returns the store with one negative news item added to the feed (behind its last twelve
  entries) and nothing else changed: same grid, same stats.
\<close>

theorem C5_rejected:
  assumes "\<not> isPaused s" and "y < length (grid s)" and "x < length (grid s ! y)"
    and "(selectedTool s = NoneBT \<and> buildingType (grid s ! y ! x) \<noteq> NoneBT \<and> money (stats s) < 5)
       \<or> (selectedTool s \<noteq> NoneBT \<and> buildingType (grid s ! y ! x) = NoneBT
          \<and> money (stats s) < cost (BUILDINGS (selectedTool s)))"
  shows "\<exists>s' item. placeBuilding x y now s = Inr (s', Some error_cue)
           \<and> news_type item = negative
           \<and> newsFeed s' = drop (length (newsFeed s) - 12) (newsFeed s) @ [item]
           \<and> grid s' = grid s \<and> stats s' = stats s
           \<and> s' = s\<lparr>newsFeed := newsFeed s'\<rparr>"
  using assms
  by (auto simp add: placeBuilding_def tileAt_in_range canAffordBuilding_def costOrZero_def
      addNews_def Let_def)

text \<open>A road costs 10; with 3 in the treasury the click on the empty tile (0, 0) is rejected.\<close>

theorem C5_rejected_witness:
  "\<not> isPaused poorStore \<and> 0 < length (grid poorStore) \<and> 0 < length (grid poorStore ! 0)
   \<and> selectedTool poorStore \<noteq> NoneBT \<and> buildingType (grid poorStore ! 0 ! 0) = NoneBT
   \<and> money (stats poorStore) < cost (BUILDINGS (selectedTool poorStore))
   \<and> (\<exists>s' item. placeBuilding 0 0 1700000000000 poorStore = Inr (s', Some error_cue)
           \<and> news_type item = negative
           \<and> newsFeed s' = [item]
           \<and> grid s' = grid poorStore \<and> stats s' = stats poorStore)"
proof -
  have p: "\<not> isPaused poorStore" by code_simp
  have y: "0 < length (grid poorStore)" by code_simp
  have x: "0 < length (grid poorStore ! 0)" by code_simp
  have t: "selectedTool poorStore \<noteq> NoneBT" by code_simp
  have e: "buildingType (grid poorStore ! 0 ! 0) = NoneBT" by code_simp
  have m: "money (stats poorStore) < cost (BUILDINGS (selectedTool poorStore))" by code_simp
  have n: "newsFeed poorStore = []" by code_simp
  from t e m have d:
    "(selectedTool poorStore = NoneBT \<and> buildingType (grid poorStore ! 0 ! 0) \<noteq> NoneBT
        \<and> money (stats poorStore) < 5)
       \<or> (selectedTool poorStore \<noteq> NoneBT \<and> buildingType (grid poorStore ! 0 ! 0) = NoneBT
          \<and> money (stats poorStore) < cost (BUILDINGS (selectedTool poorStore)))"
    by blast
  from C5_rejected [OF p y x d, of 1700000000000] p y x t e m n show ?thesis
    by fastforce
qed

text \<open>
  Claim C6: demolishing a tile that is already empty, and building on a tile that is
  already occupied, change nothing: \<^verbatim>\<open>placeBuilding\<close> returns the store as it was (grid,
  money and news feed included) and plays no cue.
\<close>

theorem C6_noop:
  assumes "y < length (grid s)" and "x < length (grid s ! y)"
    and "(selectedTool s = NoneBT \<and> buildingType (grid s ! y ! x) = NoneBT)
       \<or> (selectedTool s \<noteq> NoneBT \<and> buildingType (grid s ! y ! x) \<noteq> NoneBT)"
  shows "placeBuilding x y now s = Inr (s, None)"
  using assms by (auto simp add: placeBuilding_def tileAt_in_range Let_def)

text \<open>The bulldozer on the empty tile (0, 0), and the road tool on the house at (0, 0).\<close>

theorem C6_noop_witness:
  "0 < length (grid bulldozerStore) \<and> 0 < length (grid bulldozerStore ! 0)
   \<and> selectedTool bulldozerStore = NoneBT \<and> buildingType (grid bulldozerStore ! 0 ! 0) = NoneBT
   \<and> placeBuilding 0 0 1700000000000 bulldozerStore = Inr (bulldozerStore, None)
   \<and> 0 < length (grid houseStore) \<and> 0 < length (grid houseStore ! 0)
   \<and> selectedTool houseStore \<noteq> NoneBT \<and> buildingType (grid houseStore ! 0 ! 0) \<noteq> NoneBT
   \<and> placeBuilding 0 0 1700000000000 houseStore = Inr (houseStore, None)"
proof -
  have y1: "0 < length (grid bulldozerStore)" by code_simp
  have x1: "0 < length (grid bulldozerStore ! 0)" by code_simp
  have t1: "selectedTool bulldozerStore = NoneBT" by code_simp
  have e1: "buildingType (grid bulldozerStore ! 0 ! 0) = NoneBT" by code_simp
  have y2: "0 < length (grid houseStore)" by code_simp
  have x2: "0 < length (grid houseStore ! 0)" by code_simp
  have t2: "selectedTool houseStore \<noteq> NoneBT" by code_simp
  have e2: "buildingType (grid houseStore ! 0 ! 0) \<noteq> NoneBT" by code_simp
  from t1 e1 have d1:
    "(selectedTool bulldozerStore = NoneBT \<and> buildingType (grid bulldozerStore ! 0 ! 0) = NoneBT)
       \<or> (selectedTool bulldozerStore \<noteq> NoneBT \<and> buildingType (grid bulldozerStore ! 0 ! 0) \<noteq> NoneBT)"
    by blast
  from t2 e2 have d2:
    "(selectedTool houseStore = NoneBT \<and> buildingType (grid houseStore ! 0 ! 0) = NoneBT)
       \<or> (selectedTool houseStore \<noteq> NoneBT \<and> buildingType (grid houseStore ! 0 ! 0) \<noteq> NoneBT)"
    by blast
  note r1 = C6_noop [OF y1 x1 d1, of 1700000000000]
  note r2 = C6_noop [OF y2 x2 d2, of 1700000000000]
  from y1 x1 t1 e1 r1 y2 x2 t2 e2 r2 show ?thesis by (intro conjI)
qed

lemma sameElsewhere_refl: "sameElsewhere x y g g"
  by (simp add: sameElsewhere_def)

lemma sameElsewhere_setTile:
  assumes "y < length g" and "x < length (g ! y)"
  shows "sameElsewhere x y g (setTile g y x ((g ! y ! x)\<lparr>buildingType := b\<rparr>))"
  unfolding sameElsewhere_def
proof (intro conjI allI impI)
  show "length (setTile g y x ((g ! y ! x)\<lparr>buildingType := b\<rparr>)) = length g"
    by (rule setTile_length)
next
  fix j assume "j < length g"
  then show "length (setTile g y x ((g ! y ! x)\<lparr>buildingType := b\<rparr>) ! j) = length (g ! j)"
    by (rule setTile_row_length)
next
  fix j i assume j: "j < length g" and i: "i < length (g ! j)"
  show "tile_x (setTile g y x ((g ! y ! x)\<lparr>buildingType := b\<rparr>) ! j ! i) = tile_x (g ! j ! i)"
  proof (cases "(i, j) = (x, y)")
    case True
    with assms show ?thesis by (simp add: setTile_same)
  next
    case False
    with j i show ?thesis by (simp add: setTile_other)
  qed
  show "tile_y (setTile g y x ((g ! y ! x)\<lparr>buildingType := b\<rparr>) ! j ! i) = tile_y (g ! j ! i)"
  proof (cases "(i, j) = (x, y)")
    case True
    with assms show ?thesis by (simp add: setTile_same)
  next
    case False
    with j i show ?thesis by (simp add: setTile_other)
  qed
  assume "(i, j) \<noteq> (x, y)"
  with j i show "buildingType (setTile g y x ((g ! y ! x)\<lparr>buildingType := b\<rparr>) ! j ! i)
                 = buildingType (g ! j ! i)"
    by (simp add: setTile_other)
qed

text \<open>
  Claim C10: for a coordinate in the grid, \<^verbatim>\<open>placeBuilding\<close> (either copy) returns a
  store whose grid has the shape of the old one, the same coordinates in every tile, and
  the same building type in every tile other than the one at \<open>(x, y)\<close>.
\<close>

theorem C10_frame:
  assumes "y < length (grid s)" and "x < length (grid s ! y)"
  shows "\<exists>s' c. placeBuilding x y now s = Inr (s', c)
           \<and> placeBuilding_modular x y now s = Inr (s', c)
           \<and> sameElsewhere x y (grid s) (grid s')"
proof -
  from placeBuilding_returns [OF assms] obtain s' c
    where r: "placeBuilding x y now s = Inr (s', c)" by blast
  from placeBuilding_grid [OF r] have "sameElsewhere x y (grid s) (grid s')"
    by (auto simp add: sameElsewhere_refl sameElsewhere_setTile)
  with r show ?thesis by (simp add: placeBuilding_modular_eq)
qed

text \<open>Building a road at (1, 2) of the new game changes that tile and no other.\<close>

theorem C10_frame_witness:
  "2 < length (grid initialStore) \<and> 1 < length (grid initialStore ! 2)
   \<and> (\<exists>s' c. placeBuilding 1 2 1700000000000 initialStore = Inr (s', c)
           \<and> placeBuilding_modular 1 2 1700000000000 initialStore = Inr (s', c)
           \<and> buildingType (grid initialStore ! 2 ! 1) = NoneBT
           \<and> buildingType (grid s' ! 2 ! 1) = Road
           \<and> sameElsewhere 1 2 (grid initialStore) (grid s'))"
proof -
  have p: "\<not> isPaused initialStore" by code_simp
  have y: "2 < length (grid initialStore)" by code_simp
  have x: "1 < length (grid initialStore ! 2)" by code_simp
  have t: "selectedTool initialStore = Road" by code_simp
  have e: "buildingType (grid initialStore ! 2 ! 1) = NoneBT" by code_simp
  have m: "cost (BUILDINGS (selectedTool initialStore)) \<le> money (stats initialStore)" by code_simp
  from t have t': "selectedTool initialStore \<noteq> NoneBT" by simp
  from C10_frame [OF y x, of 1700000000000] obtain s' c
    where r: "placeBuilding 1 2 1700000000000 initialStore = Inr (s', c)"
      and md: "placeBuilding_modular 1 2 1700000000000 initialStore = Inr (s', c)"
      and f: "sameElsewhere 1 2 (grid initialStore) (grid s')" by blast
  from r placeBuilding_build [OF p y x t' e m, of 1700000000000]
  have "grid s' = setTile (grid initialStore) 2 1 ((grid initialStore ! 2 ! 1)\<lparr>buildingType := Road\<rparr>)"
    using t by auto
  with y x have "buildingType (grid s' ! 2 ! 1) = Road" by (simp add: setTile_same)
  with y x r md e f show ?thesis by blast
qed

section \<open>The tick of the store\<close>

lemma countOrZero_bumpCount:
  "countOrZero (bumpCount t m) b = countOrZero m b + (if buildingType t = b then 1 else 0)"
  by (auto simp add: countOrZero_def bumpCount_def split: option.splits)

lemma countOrZero_fold_bumpCount:
  "countOrZero (fold bumpCount ts m) b =
     countOrZero m b + int (length (filter (\<lambda>t. buildingType t = b) ts))"
  by (induction ts arbitrary: m) (simp_all add: countOrZero_bumpCount)

lemma countOrZero_empty: "countOrZero Map.empty b = 0"
  by (simp add: countOrZero_def)

lemma countOrZero_buildingCounts: "countOrZero (buildingCounts g) b = int (countTiles b g)"
  unfolding buildingCounts_def countTiles_def
  by (simp add: countOrZero_fold_bumpCount countOrZero_empty)

text \<open>
  The two copies of \<^verbatim>\<open>tick\<close> are the same function: the inline goal check with its
  table of counts decides what \<^verbatim>\<open>checkGoalCompletion\<close> decides.
\<close>

lemma tick_modular_eq: "tick_modular s = tick s"
proof (cases "currentGoal s")
  case None
  then show ?thesis
    by (simp add: tick_modular_def tick_def calculateNextDay_lib_eq split: sum.splits)
next
  case (Some cg)
  show ?thesis
  proof (cases "goal_buildingType cg")
    case None
    with Some show ?thesis
      by (cases "targetType cg")
         (auto simp add: tick_modular_def tick_def calculateNextDay_lib_eq checkGoalCompletion_def
            Let_def split: sum.splits)
  next
    case (Some b)
    with \<open>currentGoal s = Some cg\<close> show ?thesis
      by (cases "targetType cg")
         (auto simp add: tick_modular_def tick_def calculateNextDay_lib_eq checkGoalCompletion_def
            fold_countInRow countOrZero_buildingCounts Let_def split: sum.splits)
  qed
qed

section \<open>The treasury\<close>

lemma incomeGen_nonneg: "0 \<le> incomeGen (BUILDINGS b)"
  by (cases b) simp_all

lemma fold_invariant:
  "P a \<Longrightarrow> (\<And>x b. P b \<Longrightarrow> P (f x b)) \<Longrightarrow> P (fold f xs a)"
  by (induction xs arbitrary: a) simp_all

lemma visit_incomeOk: "incomeOk acc \<Longrightarrow> incomeOk (visit g y x acc)"
  using incomeGen_nonneg
  by (auto simp add: incomeOk_def visit_def accumulate_tile split: sum.splits)

lemma scanRow_incomeOk: "incomeOk acc \<Longrightarrow> incomeOk (scanRow g y acc)"
  unfolding scanRow_def by (rule fold_invariant [where P = incomeOk]) (simp_all add: visit_incomeOk)

lemma scanGrid_incomeOk: "incomeOk (scanGrid g)"
proof -
  have "incomeOk (Inr (0, 0, 0))" by (simp add: incomeOk_def)
  then show ?thesis
    unfolding scanGrid_def by (rule fold_invariant [where P = incomeOk]) (rule scanRow_incomeOk)
qed

lemma calculateNextDay_money:
  "calculateNextDay S g = Inr S' \<Longrightarrow> money S \<le> money S'"
  using scanGrid_incomeOk [of g]
  by (auto simp add: calculateNextDay_def incomeOk_def Let_def split: sum.splits)

lemma tick_money:
  "tick s = Inr s' \<Longrightarrow> money (stats s) \<le> money (stats s')"
  by (auto simp add: tick_def calculateNextDay_lib_eq Let_def split: if_splits sum.splits
      dest: calculateNextDay_money)

lemma tick_returns:
  assumes "wf_grid (grid s)"
  shows "\<exists>s'. tick s = Inr s'"
  by (simp add: tick_def calculateNextDay_lib_eq calculateNextDay_wf [OF assms] Let_def)

lemma placeBuilding_money:
  "0 \<le> money (stats s) \<Longrightarrow> placeBuilding x y now s = Inr (s', c) \<Longrightarrow> 0 \<le> money (stats s')"
  by (auto simp add: placeBuilding_def canAffordBuilding_def costOrZero_def addNews_def Let_def
      split: if_splits sum.splits)

text \<open>
  Below \<^verbatim>\<open>Number.MAX_SAFE_INTEGER\<close> the addition is exact, and rounding never makes a
  sum negative.
\<close>

lemma ulp_safe: "int a \<le> MAX_SAFE_INTEGER \<Longrightarrow> ulp a = 1"
  by (simp add: ulp.simps)

lemma roundNat_safe: "int a \<le> MAX_SAFE_INTEGER \<Longrightarrow> roundNat a = a"
  by (simp add: roundNat_def ulp_safe)

lemma roundDouble_safe: "\<bar>n\<bar> \<le> MAX_SAFE_INTEGER \<Longrightarrow> roundDouble n = n"
  by (auto simp add: roundDouble_def roundNat_safe)

lemma jsAdd_safe: "\<bar>a + b\<bar> \<le> MAX_SAFE_INTEGER \<Longrightarrow> jsAdd a b = a + b"
  by (simp add: jsAdd_def roundDouble_safe)

lemma jsAdd_nonneg: "0 \<le> a + b \<Longrightarrow> 0 \<le> jsAdd a b"
  by (simp add: jsAdd_def roundDouble_def)

lemma claimReward_money:
  "0 \<le> money (stats s) \<Longrightarrow> \<forall>g. currentGoal s = Some g \<longrightarrow> 0 < reward g \<Longrightarrow>
   0 \<le> money (stats (fst (claimReward now s)))"
  by (auto simp add: claimReward_def addNews_def jsAdd_nonneg split: option.splits)

text \<open>
  Claim C7: from a store whose money is not negative (and whose current goal, if any, has
  a positive reward), \<^verbatim>\<open>placeBuilding\<close>, \<^verbatim>\<open>tick\<close> and \<^verbatim>\<open>claimReward\<close> each
  yield a store whose money is not negative.
\<close>

theorem C7_money_nonneg:
  assumes "0 \<le> money (stats s)" and "\<forall>g. currentGoal s = Some g \<longrightarrow> 0 < reward g"
  shows "(\<forall>s' c. placeBuilding x y now s = Inr (s', c) \<longrightarrow> 0 \<le> money (stats s'))
       \<and> (\<forall>s'. tick s = Inr s' \<longrightarrow> 0 \<le> money (stats s'))
       \<and> 0 \<le> money (stats (fst (claimReward now s)))"
proof (intro conjI allI impI)
  fix s' c assume "placeBuilding x y now s = Inr (s', c)"
  with assms(1) show "0 \<le> money (stats s')" by (rule placeBuilding_money)
next
  fix s' assume "tick s = Inr s'"
  from tick_money [OF this] assms(1) show "0 \<le> money (stats s')" by simp
next
  from assms show "0 \<le> money (stats (fst (claimReward now s)))" by (rule claimReward_money)
qed

lemma claimReward_completed:
  assumes "currentGoal s = Some g" and "completed g"
  shows "claimReward now s =
           (s\<lparr>stats := (stats s)\<lparr>money := jsAdd (money (stats s)) (reward g)\<rparr>,
              currentGoal := None,
              newsFeed := drop (length (newsFeed s) - 12) (newsFeed s) @
                [\<lparr>news_id = numberToString (int now),
                  news_text = ''Goal achieved! '' @ numberToString (reward g) @ '' collected.'',
                  news_type = positive\<rparr>]\<rparr>,
            Some success)"
  using assms by (simp add: claimReward_def addNews_def)

text \<open>
  With 2000 in the treasury and the completed goal: a road leaves 1990, a tick of the
  empty city returns, and the claim gives 2500.
\<close>

theorem C7_money_nonneg_witness:
  "0 \<le> money (stats richStore) \<and> currentGoal richStore = Some moneyGoal \<and> 0 < reward moneyGoal
   \<and> (\<exists>s' c. placeBuilding 0 0 1700000000000 richStore = Inr (s', c) \<and> money (stats s') = 1990
              \<and> 0 \<le> money (stats s'))
   \<and> (\<exists>s'. tick richStore = Inr s' \<and> 0 \<le> money (stats s'))
   \<and> money (stats (fst (claimReward 1700000000000 richStore))) = 2500
   \<and> 0 \<le> money (stats (fst (claimReward 1700000000000 richStore)))"
proof -
  have m0: "0 \<le> money (stats richStore)" by code_simp
  have g: "currentGoal richStore = Some moneyGoal" by code_simp
  have rw: "reward moneyGoal = 500" by code_simp
  have cm: "completed moneyGoal" by code_simp
  have mv: "money (stats richStore) = 2000" by code_simp
  from g rw have g0: "\<forall>g. currentGoal richStore = Some g \<longrightarrow> 0 < reward g" by simp
  note inv = C7_money_nonneg [OF m0 g0, of 0 0 1700000000000]
  have p: "\<not> isPaused richStore" by code_simp
  have y: "0 < length (grid richStore)" by code_simp
  have x: "0 < length (grid richStore ! 0)" by code_simp
  have t: "selectedTool richStore \<noteq> NoneBT" by code_simp
  have e: "buildingType (grid richStore ! 0 ! 0) = NoneBT" by code_simp
  have c: "cost (BUILDINGS (selectedTool richStore)) = 10" by code_simp
  from c mv have m: "cost (BUILDINGS (selectedTool richStore)) \<le> money (stats richStore)" by simp
  have wf: "wf_grid (grid richStore)" by code_simp
  from placeBuilding_build [OF p y x t e m, of 1700000000000] inv c mv
  have a: "\<exists>s' c. placeBuilding 0 0 1700000000000 richStore = Inr (s', c)
              \<and> money (stats s') = 1990 \<and> 0 \<le> money (stats s')"
    by simp
  from tick_returns [OF wf] inv
  have b: "\<exists>s'. tick richStore = Inr s' \<and> 0 \<le> money (stats s')" by blast
  from claimReward_completed [OF g cm, of 1700000000000] rw mv
  have d: "money (stats (fst (claimReward 1700000000000 richStore))) = 2500"
    by (simp add: jsAdd_safe MAX_SAFE_INTEGER_def)
  from inv have f: "0 \<le> money (stats (fst (claimReward 1700000000000 richStore)))" by blast
  from rw have rp: "0 < reward moneyGoal" by simp
  from m0 g rp a b d f show ?thesis by (intro conjI)
qed

text \<open>
  Claim C8, as stated: a successful claim increases the money by exactly the reward. It
  fails once the sum passes \<open>2\<^sup>5\<^sup>3\<close>: with 985 in the treasury and a reward of
  \<open>2\<^sup>5\<^sup>3 - 2\<close> the exact sum \<open>2\<^sup>5\<^sup>3 + 983\<close> is odd, hence no double, and the addition
  rounds it to \<open>2\<^sup>5\<^sup>3 + 984\<close>.
\<close>

theorem C8_exact_reward_counterexample:
  "currentGoal hugeRewardStore = Some hugeRewardGoal \<and> completed hugeRewardGoal
   \<and> money (stats hugeRewardStore) = 985 \<and> reward hugeRewardGoal = 9007199254740990
   \<and> money (stats (fst (claimReward 1700000000000 hugeRewardStore))) = 9007199254741976
   \<and> \<not> (money (stats (fst (claimReward 1700000000000 hugeRewardStore)))
          = money (stats hugeRewardStore) + reward hugeRewardGoal)"
proof -
  have g: "currentGoal hugeRewardStore = Some hugeRewardGoal" by code_simp
  have cm: "completed hugeRewardGoal" by code_simp
  have mv: "money (stats hugeRewardStore) = 985" by code_simp
  have rw: "reward hugeRewardGoal = 9007199254740990" by code_simp
  have r: "jsAdd 985 9007199254740990 = 9007199254741976"
    by (simp add: jsAdd_def roundDouble_def roundNat_def ulp.simps MAX_SAFE_INTEGER_def Let_def)
  from claimReward_completed [OF g cm, of 1700000000000] rw mv r
  have d: "money (stats (fst (claimReward 1700000000000 hugeRewardStore))) = 9007199254741976"
    by simp
  from d mv rw
  have n: "\<not> (money (stats (fst (claimReward 1700000000000 hugeRewardStore)))
             = money (stats hugeRewardStore) + reward hugeRewardGoal)"
    by simp
  from g cm mv rw d n show ?thesis by (intro conjI)
qed

text \<open>
  Claim C8, amended: \<^verbatim>\<open>claimReward\<close> returns the store unchanged unless there is a
  current goal that is completed; then the money becomes the double-precision sum of the
  money and the goal's reward, which is the money increased by exactly the reward whenever
  that sum is at most \<^verbatim>\<open>Number.MAX_SAFE_INTEGER\<close> in magnitude; the current goal
  becomes absent, one positive news item is added to the feed, the success cue is played,
  and grid, population and day (and every other field) are unchanged.
\<close>

theorem C8_claimReward:
  "(\<not> (\<exists>g. currentGoal s = Some g \<and> completed g) \<longrightarrow> claimReward now s = (s, None))
   \<and> (\<forall>g. currentGoal s = Some g \<and> completed g \<longrightarrow>
        (\<exists>s' item. claimReward now s = (s', Some success)
           \<and> money (stats s') = jsAdd (money (stats s)) (reward g)
           \<and> (\<bar>money (stats s) + reward g\<bar> \<le> MAX_SAFE_INTEGER \<longrightarrow>
                money (stats s') = money (stats s) + reward g)
           \<and> currentGoal s' = None
           \<and> news_type item = positive
           \<and> newsFeed s' = drop (length (newsFeed s) - 12) (newsFeed s) @ [item]
           \<and> grid s' = grid s
           \<and> population (stats s') = population (stats s)
           \<and> day (stats s') = day (stats s)
           \<and> s' = s\<lparr>stats := stats s', currentGoal := None, newsFeed := newsFeed s'\<rparr>))"
proof (intro conjI allI impI)
  assume "\<not> (\<exists>g. currentGoal s = Some g \<and> completed g)"
  then show "claimReward now s = (s, None)"
    by (auto simp add: claimReward_def split: option.splits)
next
  fix g assume "currentGoal s = Some g \<and> completed g"
  then have "currentGoal s = Some g" and "completed g" by simp_all
  from claimReward_completed [OF this, of now]
  show "\<exists>s' item. claimReward now s = (s', Some success)
           \<and> money (stats s') = jsAdd (money (stats s)) (reward g)
           \<and> (\<bar>money (stats s) + reward g\<bar> \<le> MAX_SAFE_INTEGER \<longrightarrow>
                money (stats s') = money (stats s) + reward g)
           \<and> currentGoal s' = None
           \<and> news_type item = positive
           \<and> newsFeed s' = drop (length (newsFeed s) - 12) (newsFeed s) @ [item]
           \<and> grid s' = grid s
           \<and> population (stats s') = population (stats s)
           \<and> day (stats s') = day (stats s)
           \<and> s' = s\<lparr>stats := stats s', currentGoal := None, newsFeed := newsFeed s'\<rparr>"
    by (auto simp add: jsAdd_safe)
qed

text \<open>
  The scenario of the specification: 2000 in the treasury, reward 500, claimed: 2500. And
  the new game, which has no goal: nothing happens.
\<close>

theorem C8_claimReward_witness:
  "currentGoal richStore = Some moneyGoal \<and> completed moneyGoal
   \<and> \<bar>money (stats richStore) + reward moneyGoal\<bar> \<le> MAX_SAFE_INTEGER
   \<and> (\<exists>s' item. claimReward 1700000000000 richStore = (s', Some success)
         \<and> money (stats s') = 2500 \<and> currentGoal s' = None
         \<and> news_type item = positive \<and> newsFeed s' = [item]
         \<and> grid s' = grid richStore \<and> population (stats s') = population (stats richStore)
         \<and> day (stats s') = day (stats richStore))
   \<and> \<not> (\<exists>g. currentGoal initialStore = Some g \<and> completed g)
   \<and> claimReward 1700000000000 initialStore = (initialStore, None)"
proof -
  have g: "currentGoal richStore = Some moneyGoal" by code_simp
  have cm: "completed moneyGoal" by code_simp
  have rw: "reward moneyGoal = 500" by code_simp
  have mv: "money (stats richStore) = 2000" by code_simp
  have nf: "newsFeed richStore = []" by code_simp
  from rw mv have sf: "\<bar>money (stats richStore) + reward moneyGoal\<bar> \<le> MAX_SAFE_INTEGER"
    by (simp add: MAX_SAFE_INTEGER_def)
  have n: "currentGoal initialStore = None" by code_simp
  then have n': "\<not> (\<exists>g. currentGoal initialStore = Some g \<and> completed g)" by simp
  from C8_claimReward [of richStore 1700000000000] g cm sf
  have "\<exists>s' item. claimReward 1700000000000 richStore = (s', Some success)
           \<and> money (stats s') = money (stats richStore) + reward moneyGoal
           \<and> currentGoal s' = None
           \<and> news_type item = positive
           \<and> newsFeed s' = drop (length (newsFeed richStore) - 12) (newsFeed richStore) @ [item]
           \<and> grid s' = grid richStore
           \<and> population (stats s') = population (stats richStore)
           \<and> day (stats s') = day (stats richStore)"
    by blast
  with rw mv nf have a: "\<exists>s' item. claimReward 1700000000000 richStore = (s', Some success)
         \<and> money (stats s') = 2500 \<and> currentGoal s' = None
         \<and> news_type item = positive \<and> newsFeed s' = [item]
         \<and> grid s' = grid richStore \<and> population (stats s') = population (stats richStore)
         \<and> day (stats s') = day (stats richStore)"
    by simp
  from C8_claimReward [of initialStore 1700000000000] n'
  have b: "claimReward 1700000000000 initialStore = (initialStore, None)" by blast
  from g cm sf a n' b show ?thesis by (intro conjI)
qed

section \<open>Reachable stores\<close>

lemma placeBuilding_goal:
  "placeBuilding x y now s = Inr (s', c) \<Longrightarrow> currentGoal s' = currentGoal s"
  by (auto simp add: placeBuilding_def addNews_def Let_def split: if_splits sum.splits)

lemma tick_goal_reward:
  "tick s = Inr s' \<Longrightarrow> rewardOk s \<Longrightarrow> rewardOk s'"
  by (auto simp add: tick_def rewardOk_def Let_def split: if_splits sum.splits option.splits prod.splits TargetType.splits)

lemma claimReward_goal: "rewardOk s \<Longrightarrow> rewardOk (fst (claimReward now s))"
  by (auto simp add: claimReward_def rewardOk_def addNews_def split: option.splits)

lemma rewardOk_iff: "rewardOk s \<longleftrightarrow> (\<forall>g. currentGoal s = Some g \<longrightarrow> 0 < reward g)"
  by (auto simp add: rewardOk_def split: option.splits)

text \<open>
  In every store a session can reach, the money is not negative and the current goal has a
  positive reward.
\<close>

lemma reachable_invariant:
  "reachable s \<Longrightarrow> 0 \<le> money (stats s) \<and> rewardOk s"
proof (induction rule: reachable.induct)
  case reachable_init
  show ?case
    by (simp add: initialStore_def INITIAL_STATS_def INITIAL_MONEY_def rewardOk_def)
next
  case (reachable_setTool s tool)
  then show ?case by (simp add: setTool_def rewardOk_def)
next
  case (reachable_startGame s enabled)
  then show ?case by (simp add: startGame_def rewardOk_def)
next
  case (reachable_togglePause s)
  then show ?case by (simp add: togglePause_def rewardOk_def)
next
  case (reachable_setGoal s goal)
  then show ?case by (simp add: setGoal_def rewardOk_def)
next
  case (reachable_addNews s news)
  then show ?case by (simp add: addNews_def rewardOk_def)
next
  case (reachable_placeBuilding s x y now s' c)
  then show ?case
    using placeBuilding_money [of s x y now s' c] placeBuilding_goal [of x y now s s' c]
    by (simp add: rewardOk_def)
next
  case (reachable_tick s s')
  then show ?case
    using tick_money [of s s'] tick_goal_reward [of s s'] by simp
next
  case (reachable_claimReward s now)
  then show ?case
    using claimReward_money [of s now] claimReward_goal [of s now] by (simp add: rewardOk_iff)
next
  case (reachable_resetGame s)
  show ?case
    by (simp add: resetGame_def INITIAL_STATS_def INITIAL_MONEY_def rewardOk_def)
qed

section \<open>Agent counts\<close>

lemma roadTiles_count: "length (roadTiles g) = countTiles Road g"
  by (simp add: roadTiles_def countTiles_def)

lemma vehiclesEmitted_eq:
  "vehiclesEmitted g = (if length (roadTiles g) < 2 then 0 else min (length (roadTiles g)) 30)"
  by (simp add: vehiclesEmitted_def TrafficSystem_mesh_def carCount_def)

lemma TrafficSystem_spawn_length:
  "length (TrafficSystem_spawn pick g cars) =
     (if length (roadTiles g) < 2 then length cars else min (length (roadTiles g)) 30)"
  by (simp add: TrafficSystem_spawn_def carCount_def Let_def)

lemma pedestriansEmitted_eq: "pedestriansEmitted pop g = min (pop div 2) 300"
  by (simp add: pedestriansEmitted_def PopulationSystem_mesh_def agentCount_def)

lemma PopulationSystem_spawn_length:
  assumes "0 \<le> pop"
  shows "\<exists>ws. PopulationSystem_spawn pick pop g agents = Inr ws \<and>
           (if pop < 2 \<or> walkableTiles g = [] then ws = agents
            else int (length ws) = min (pop div 2) 300)"
proof -
  from assms have "0 \<le> agentCount pop" by (simp add: agentCount_def)
  moreover have "agentCount pop = 0 \<longleftrightarrow> pop < 2" using assms by (auto simp add: agentCount_def)
  ultimately show ?thesis
    by (auto simp add: PopulationSystem_spawn_def Let_def agentCount_def)
qed

text \<open>
  Claim C9, as stated: the pedestrians never outnumber the walkable tiles, and fewer than
  two walkable tiles mean no agents. It fails for the pedestrians: in the city built up
  with houses around a single road tile, whose population after one tick from 0 is 1120,
  \<^verbatim>\<open>PopulationSystem\<close> renders 300 pedestrians, and its effect allocates 300, on one
  walkable tile.
\<close>

theorem C9_pedestrians_counterexample:
  "length (walkableTiles builtUpGrid) = 1
   \<and> pedestriansEmitted 1120 builtUpGrid = 300
   \<and> map_sum id length (PopulationSystem_spawn pickSevenths 1120 builtUpGrid []) = Inr 300
   \<and> \<not> (pedestriansEmitted 1120 builtUpGrid \<le> int (length (walkableTiles builtUpGrid)))
   \<and> \<not> (length (walkableTiles builtUpGrid) < 2 \<longrightarrow> pedestriansEmitted 1120 builtUpGrid = 0)"
proof -
  have a: "length (walkableTiles builtUpGrid) = 1" by code_simp
  have b: "pedestriansEmitted 1120 builtUpGrid = 300" by code_simp
  from a have w: "walkableTiles builtUpGrid \<noteq> []" by auto
  from PopulationSystem_spawn_length [of 1120 pickSevenths builtUpGrid "[]"] w
  have c: "map_sum id length (PopulationSystem_spawn pickSevenths 1120 builtUpGrid []) = Inr 300"
    by auto
  from a b c show ?thesis by simp
qed

text \<open>
  Claim C9, amended. Vehicles: none with fewer than two road tiles, otherwise the smaller
  of the number of road tiles and 30, so never more than the road tiles; the effect on a
  fresh component allocates as many cars as are rendered. Pedestrians: the smaller of half
  the population (rounded down) and 300, whatever the grid; for a population that is not
  negative the effect on a fresh component allocates that many walkers, or none when no
  tile is walkable.
\<close>

theorem C9_agent_counts:
  "vehiclesEmitted G = (if countTiles Road G < 2 then 0 else min (countTiles Road G) 30)
   \<and> vehiclesEmitted G \<le> countTiles Road G
   \<and> length (TrafficSystem_spawn pick G []) = vehiclesEmitted G
   \<and> pedestriansEmitted pop G = min (pop div 2) 300
   \<and> (0 \<le> pop \<longrightarrow>
        (\<exists>ws. PopulationSystem_spawn pick pop G [] = Inr ws \<and>
           int (length ws) = (if walkableTiles G = [] then 0 else pedestriansEmitted pop G)))"
proof (intro conjI impI)
  show "vehiclesEmitted G = (if countTiles Road G < 2 then 0 else min (countTiles Road G) 30)"
    by (simp add: vehiclesEmitted_eq roadTiles_count)
  then show "vehiclesEmitted G \<le> countTiles Road G" by simp
  show "length (TrafficSystem_spawn pick G []) = vehiclesEmitted G"
    by (simp add: TrafficSystem_spawn_length vehiclesEmitted_eq)
  show "pedestriansEmitted pop G = min (pop div 2) 300" by (rule pedestriansEmitted_eq)
next
  assume p: "0 \<le> pop"
  from PopulationSystem_spawn_length [OF p, of pick G "[]"] obtain ws
    where r: "PopulationSystem_spawn pick pop G [] = Inr ws"
      and l: "if pop < 2 \<or> walkableTiles G = [] then ws = [] else int (length ws) = min (pop div 2) 300"
    by blast
  from p have z: "pop < 2 \<Longrightarrow> min (pop div 2) 300 = 0" by simp
  from l z have "int (length ws) = (if walkableTiles G = [] then 0 else pedestriansEmitted pop G)"
    by (auto simp add: pedestriansEmitted_eq split: if_splits)
  with r show "\<exists>ws. PopulationSystem_spawn pick pop G [] = Inr ws \<and>
           int (length ws) = (if walkableTiles G = [] then 0 else pedestriansEmitted pop G)"
    by blast
qed

text \<open>45 road tiles carry 30 cars; a population of 40 gives 20 pedestrians.\<close>

theorem C9_agent_counts_witness:
  "countTiles Road roadsGrid = 45 \<and> vehiclesEmitted roadsGrid = 30
   \<and> length (TrafficSystem_spawn pickSevenths roadsGrid []) = 30
   \<and> (0::int) \<le> 40 \<and> walkableTiles roadsGrid \<noteq> [] \<and> pedestriansEmitted 40 roadsGrid = 20
   \<and> (\<exists>ws. PopulationSystem_spawn pickSevenths 40 roadsGrid [] = Inr ws \<and> int (length ws) = 20)"
proof -
  have c: "countTiles Road roadsGrid = 45" by code_simp
  have w: "walkableTiles roadsGrid \<noteq> []" by code_simp
  have p: "(0::int) \<le> 40" by simp
  note t = C9_agent_counts [of roadsGrid pickSevenths 40]
  from t c have v: "vehiclesEmitted roadsGrid = 30" by simp
  from t v have s: "length (TrafficSystem_spawn pickSevenths roadsGrid []) = 30" by simp
  from t have e: "pedestriansEmitted 40 roadsGrid = 20" by simp
  from t p w e have q: "\<exists>ws. PopulationSystem_spawn pickSevenths 40 roadsGrid [] = Inr ws \<and> int (length ws) = 20"
    by simp
  from c v s p w e q show ?thesis by (intro conjI)
qed

end
